theory Spec2Isabelle
  imports Complex_Main
begin

section \<open>JavaScript numbers\<close>

text \<open>
  The analysis engine of \<^verbatim>\<open>src/server/analyzer.ts\<close> computes on JavaScript
  numbers, which are IEEE 754 binary64 values. A number is modelled as a finite real,
  one of the two infinities, or NaN. The sum, product and quotient of finite numbers
  are the exact results rounded to binary64 (to nearest, ties to even, with gradual
  underflow and with overflow to an infinity). The special values follow IEEE 754 as
  JavaScript exposes it (a division by zero gives an infinity or NaN, NaN compares
  false with everything). The sign of a zero is not modelled: a finite non-zero value
  divided by zero gives the infinity of the dividend's sign. The engine never reads
  the sign of such a quotient: it takes the percent difference through
  \<^verbatim>\<open>Math.abs\<close> only, and the direction from the sign of the difference.
\<close>

datatype jsnum = Fin real | PInf | NInf | NaN

subsection \<open>Rounding to binary64\<close>

text \<open>The power of two with an integer exponent.\<close>

definition pow2 :: "int \<Rightarrow> real" where
  "pow2 e = (if 0 \<le> e then 2 ^ nat e else 1 / 2 ^ nat (- e))"

text \<open>
  The binary exponent of a positive real: the \<open>e\<close> with \<open>2 ^ e \<le> a < 2 ^ (e + 1)\<close>,
  found by halving or doubling, in at most as many steps as the first argument says.
\<close>

fun expo :: "nat \<Rightarrow> real \<Rightarrow> int" where
  "expo 0 a = 0"
| "expo (Suc n) a =
     (if 2 \<le> a then expo n (a / 2) + 1
      else if a < 1 then expo n (a * 2) - 1
      else 0)"

text \<open>
  The exponent of the binary64 format for a positive real: that of the real, but not
  below that of the smallest normal number. The spacing of the binary64 values around
  the real follows from it: 52 fraction bits below the exponent.
\<close>

definition exponent64 :: "real \<Rightarrow> int" where
  "exponent64 a = (if a < pow2 (- 1022) then - 1022 else expo 1100 a)"

definition quantum :: "real \<Rightarrow> real" where
  "quantum a = pow2 (exponent64 a - 52)"

text \<open>The nearest integer, a tie to the even one.\<close>

definition roundHalfEven :: "real \<Rightarrow> int" where
  "roundHalfEven q =
     (if q - of_int \<lfloor>q\<rfloor> < 1 / 2 then \<lfloor>q\<rfloor>
      else if 1 / 2 < q - of_int \<lfloor>q\<rfloor> then \<lfloor>q\<rfloor> + 1
      else if even \<lfloor>q\<rfloor> then \<lfloor>q\<rfloor>
      else \<lfloor>q\<rfloor> + 1)"

text \<open>The nearest multiple of the spacing \<open>u\<close>.\<close>

definition nearest :: "real \<Rightarrow> real \<Rightarrow> real" where
  "nearest a u = of_int (roundHalfEven (a / u)) * u"

text \<open>A rounded magnitude with its sign: an infinity from \<open>2 ^ 1024\<close> on.\<close>

definition overflow :: "bool \<Rightarrow> real \<Rightarrow> jsnum" where
  "overflow positive m =
     (if pow2 1024 \<le> m then (if positive then PInf else NInf)
      else Fin (if positive then m else - m))"

definition round64 :: "real \<Rightarrow> jsnum" where
  "round64 x =
     (if x = 0 then Fin 0
      else overflow (0 < x) (nearest \<bar>x\<bar> (quantum \<bar>x\<bar>)))"

text \<open>
  A value of the type \<^verbatim>\<open>number\<close> is a binary64 value: an infinity, NaN, or a real
  that rounding leaves as it is.
\<close>

fun is_double :: "jsnum \<Rightarrow> bool" where
  "is_double (Fin x) = (round64 x = Fin x)"
| "is_double a = True"

subsection \<open>Operators and \<^verbatim>\<open>Math\<close> functions\<close>

fun js_neg :: "jsnum \<Rightarrow> jsnum" where
  "js_neg (Fin x) = Fin (- x)"
| "js_neg PInf = NInf"
| "js_neg NInf = PInf"
| "js_neg NaN = NaN"

fun js_add :: "jsnum \<Rightarrow> jsnum \<Rightarrow> jsnum" where
  "js_add NaN b = NaN"
| "js_add a NaN = NaN"
| "js_add (Fin x) (Fin y) = round64 (x + y)"
| "js_add PInf NInf = NaN"
| "js_add NInf PInf = NaN"
| "js_add PInf b = PInf"
| "js_add NInf b = NInf"
| "js_add a PInf = PInf"
| "js_add a NInf = NInf"

definition js_sub :: "jsnum \<Rightarrow> jsnum \<Rightarrow> jsnum" where
  "js_sub a b = js_add a (js_neg b)"

fun js_mul :: "jsnum \<Rightarrow> jsnum \<Rightarrow> jsnum" where
  "js_mul NaN b = NaN"
| "js_mul a NaN = NaN"
| "js_mul (Fin x) (Fin y) = round64 (x * y)"
| "js_mul PInf (Fin y) = (if y = 0 then NaN else if 0 < y then PInf else NInf)"
| "js_mul NInf (Fin y) = (if y = 0 then NaN else if 0 < y then NInf else PInf)"
| "js_mul (Fin x) PInf = (if x = 0 then NaN else if 0 < x then PInf else NInf)"
| "js_mul (Fin x) NInf = (if x = 0 then NaN else if 0 < x then NInf else PInf)"
| "js_mul PInf PInf = PInf"
| "js_mul PInf NInf = NInf"
| "js_mul NInf PInf = NInf"
| "js_mul NInf NInf = PInf"

fun js_div :: "jsnum \<Rightarrow> jsnum \<Rightarrow> jsnum" where
  "js_div NaN b = NaN"
| "js_div a NaN = NaN"
| "js_div (Fin x) (Fin y) =
     (if y = 0 then (if x = 0 then NaN else if 0 < x then PInf else NInf)
      else round64 (x / y))"
| "js_div (Fin x) PInf = Fin 0"
| "js_div (Fin x) NInf = Fin 0"
| "js_div PInf (Fin y) = (if y < 0 then NInf else PInf)"
| "js_div NInf (Fin y) = (if y < 0 then PInf else NInf)"
| "js_div PInf b = NaN"
| "js_div NInf b = NaN"

text \<open>The relational operators \<^verbatim>\<open><\<close>, \<^verbatim>\<open>>\<close> and \<^verbatim>\<open>>=\<close>: false as soon as an operand is NaN.\<close>

fun js_lt :: "jsnum \<Rightarrow> jsnum \<Rightarrow> bool" where
  "js_lt NaN b = False"
| "js_lt a NaN = False"
| "js_lt (Fin x) (Fin y) = (x < y)"
| "js_lt a NInf = False"
| "js_lt PInf b = False"
| "js_lt NInf b = True"
| "js_lt a PInf = True"

definition js_gt :: "jsnum \<Rightarrow> jsnum \<Rightarrow> bool" where
  "js_gt a b = js_lt b a"

definition js_ge :: "jsnum \<Rightarrow> jsnum \<Rightarrow> bool" where
  "js_ge a b = (a \<noteq> NaN \<and> b \<noteq> NaN \<and> \<not> js_lt a b)"

fun Math_abs :: "jsnum \<Rightarrow> jsnum" where
  "Math_abs (Fin x) = Fin \<bar>x\<bar>"
| "Math_abs PInf = PInf"
| "Math_abs NInf = PInf"
| "Math_abs NaN = NaN"

definition Math_max :: "jsnum \<Rightarrow> jsnum \<Rightarrow> jsnum" where
  "Math_max a b = (if a = NaN \<or> b = NaN then NaN else if js_lt a b then b else a)"

definition Math_min :: "jsnum \<Rightarrow> jsnum \<Rightarrow> jsnum" where
  "Math_min a b = (if a = NaN \<or> b = NaN then NaN else if js_lt b a then b else a)"

text \<open>
  \<^verbatim>\<open>Math.round\<close> rounds to the nearest integer, a tie towards plus infinity. The
  result is exact: the nearest integer of a binary64 value is a binary64 value.
\<close>

fun Math_round :: "jsnum \<Rightarrow> jsnum" where
  "Math_round (Fin x) = Fin (of_int \<lfloor>x + 1 / 2\<rfloor>)"
| "Math_round a = a"

fun Math_sqrt :: "jsnum \<Rightarrow> jsnum" where
  "Math_sqrt (Fin x) = (if x < 0 then NaN else round64 (sqrt x))"
| "Math_sqrt PInf = PInf"
| "Math_sqrt NInf = NaN"
| "Math_sqrt NaN = NaN"

text \<open>\<^verbatim>\<open>Math.pow(x, 2)\<close>, the only power the engine takes.\<close>

definition Math_pow2 :: "jsnum \<Rightarrow> jsnum" where
  "Math_pow2 x = js_mul x x"

text \<open>
  The number of elements of an array, as a JavaScript number. An array has fewer than
  \<open>2 ^ 32\<close> elements, so the number is exact.
\<close>

definition js_of_nat :: "nat \<Rightarrow> jsnum" where
  "js_of_nat n = Fin (of_nat n)"

text \<open>
  The engine turns numbers into text with \<^verbatim>\<open>Number.prototype.toFixed(1)\<close> and with
  the string conversion of a template literal. Both belong to the JavaScript runtime,
  not to the analysed program; they are parameters of the model. Neither throws for
  a number.
\<close>

record js_format =
  toFixed1 :: "jsnum \<Rightarrow> string"
  numToString :: "jsnum \<Rightarrow> string"

text \<open>
  \<^verbatim>\<open>String.prototype.trim\<close> on the texts of the engine, which are ASCII apart from
  what the formatting functions return: white space is tab, line feed, vertical tab,
  form feed, carriage return and space.
\<close>

definition is_space :: "char \<Rightarrow> bool" where
  "is_space c = (c \<in> {CHR 0x09, CHR 0x0A, CHR 0x0B, CHR 0x0C, CHR 0x0D, CHR 0x20})"

definition trim :: "string \<Rightarrow> string" where
  "trim s = rev (dropWhile is_space (rev (dropWhile is_space s)))"

section \<open>Data model\<close>

datatype consistency = high | medium | low

datatype trend = increasing | stable | decreasing

datatype recommendation = over | under | skip

text \<open>The interface \<^verbatim>\<open>PlayerStatsSummary\<close> of \<^verbatim>\<open>src/server/statmuse.ts\<close>.\<close>

record PlayerStatsSummary =
  playerName :: string
  sport :: string
  statType :: string
  recentAverage :: "jsnum option"
  last5Games :: "jsnum list"
  last10Games :: "jsnum list"
  consistency :: consistency
  trend :: trend

text \<open>
  The interface \<^verbatim>\<open>AnalysisResult\<close>. Its field \<^verbatim>\<open>recentAverage\<close>, a string or null,
  is named \<open>recentAverageText\<close> here, apart from the number of the same name in the
  statistics.
\<close>

record AnalysisResult =
  recommendation :: recommendation
  confidenceScore :: jsnum
  reasoning :: string
  recentAverageText :: "string option"
  gamesAnalyzed :: nat

section \<open>The analysis engine\<close>

text \<open>\<^verbatim>\<open>calculateVariance\<close>: the population standard deviation of the values.\<close>

definition calculateVariance :: "jsnum list \<Rightarrow> jsnum" where
  "calculateVariance values =
     (if length values = 0 then Fin 0
      else
        let mean = js_div (foldl (\<lambda>sum val. js_add sum val) (Fin 0) values)
                          (js_of_nat (length values));
            squaredDiffs = map (\<lambda>val. Math_pow2 (js_sub val mean)) values;
            variance = js_div (foldl (\<lambda>sum val. js_add sum val) (Fin 0) squaredDiffs)
                              (js_of_nat (length values))
        in Math_sqrt variance)"

text \<open>
  The constants that \<^verbatim>\<open>analyzeProjection\<close> binds once the guard has passed
  (lines 50 to 60 of the source).
\<close>

record locals =
  difference :: jsnum
  percentDifference :: jsnum
  gamesOver :: nat
  gamesUnder :: nat
  hitRate :: jsnum
  stdDev :: jsnum
  coefficientOfVariation :: jsnum

definition computeLocals :: "jsnum \<Rightarrow> jsnum \<Rightarrow> jsnum list \<Rightarrow> locals" where
  "computeLocals ls ra l5 =
     (let d = js_sub ra ls;
          pd = js_mul (js_div d ls) (Fin 100);
          go = length (filter (\<lambda>val. js_gt val ls) l5);
          gu = length (filter (\<lambda>val. js_lt val ls) l5);
          hr = js_div (js_of_nat (max go gu)) (js_of_nat (length l5));
          sd = calculateVariance l5;
          cv = js_div sd ra
      in \<lparr>difference = d, percentDifference = pd, gamesOver = go, gamesUnder = gu,
          hitRate = hr, stdDev = sd, coefficientOfVariation = cv\<rparr>)"

text \<open>A recommendation interpolated into a template literal is its own text.\<close>

fun recommendationText :: "recommendation \<Rightarrow> string" where
  "recommendationText over = ''over''"
| "recommendationText under = ''under''"
| "recommendationText skip = ''skip''"

text \<open>
  The branch on the strength of the signal (lines 63 to 88): it sets the variables
  \<^verbatim>\<open>recommendation\<close>, \<^verbatim>\<open>baseConfidence\<close> and \<^verbatim>\<open>reasoning\<close>, returned here in
  that order. The literal \<^verbatim>\<open>0.8\<close> denotes the binary64 value nearest to 8/10; the
  other literals of the engine are integers.
\<close>

definition signal ::
  "js_format \<Rightarrow> jsnum \<Rightarrow> jsnum \<Rightarrow> jsnum list \<Rightarrow> locals \<Rightarrow> recommendation \<times> jsnum \<times> string" where
  "signal fmt ls ra l5 L =
     (if js_gt (Math_abs (percentDifference L)) (Fin 15) then
        (if js_gt (difference L) (Fin 0) then over else under,
         Fin 70,
         ''Player's recent average ('' @ toFixed1 fmt ra @ '') is ''
           @ toFixed1 fmt (Math_abs (percentDifference L)) @ ''% ''
           @ (if js_gt (difference L) (Fin 0) then ''above'' else ''below'')
           @ '' the line ('' @ numToString fmt ls @ ''). '')
      else if js_gt (Math_abs (percentDifference L)) (Fin 8) then
        (if js_gt (difference L) (Fin 0) then over else under,
         Fin 55,
         ''Player's recent average ('' @ toFixed1 fmt ra @ '') is moderately ''
           @ (if js_gt (difference L) (Fin 0) then ''above'' else ''below'')
           @ '' the line ('' @ numToString fmt ls @ ''). '')
      else if js_ge (hitRate L) (round64 (8 / 10)) then
        (let r = (if gamesUnder L < gamesOver L then over else under) in
         (r,
          Fin 60,
          ''Player has hit '' @ recommendationText r
            @ '' in '' @ numToString fmt (Math_max (js_of_nat (gamesOver L)) (js_of_nat (gamesUnder L)))
            @ '' of last '' @ numToString fmt (js_of_nat (length l5)) @ '' games. ''))
      else
        (skip,
         Fin 30,
         ''Line ('' @ numToString fmt ls @ '') is close to recent average (''
           @ toFixed1 fmt ra @ ''), making this a coin flip. ''))"

text \<open>
  The adjustment for consistency (lines 91 to 98): it sets \<^verbatim>\<open>confidenceAdjustment\<close>
  and appends to \<^verbatim>\<open>reasoning\<close>.
\<close>

definition consistencyStep :: "consistency \<Rightarrow> string \<Rightarrow> jsnum \<times> string" where
  "consistencyStep c reasoning0 =
     (if c = high then (Fin 10, reasoning0 @ ''Player shows high consistency. '')
      else if c = low then (Fin (- 15), reasoning0 @ ''Player shows high variance in performance. '')
      else (Fin 0, reasoning0))"

text \<open>The adjustment for the trend (lines 101 to 113), on the same two variables.\<close>

definition trendStep :: "trend \<Rightarrow> recommendation \<Rightarrow> jsnum \<times> string \<Rightarrow> jsnum \<times> string" where
  "trendStep t r st =
     (case st of (confidenceAdjustment, reasoning0) \<Rightarrow>
        if t = increasing \<and> r = over then
          (js_add confidenceAdjustment (Fin 10), reasoning0 @ ''Player is trending upward. '')
        else if t = decreasing \<and> r = under then
          (js_add confidenceAdjustment (Fin 10), reasoning0 @ ''Player is trending downward. '')
        else if t = increasing \<and> r = under then
          (js_sub confidenceAdjustment (Fin 10), reasoning0 @ ''Caution: Player is trending upward. '')
        else if t = decreasing \<and> r = over then
          (js_sub confidenceAdjustment (Fin 10), reasoning0 @ ''Caution: Player is trending downward. '')
        else (confidenceAdjustment, reasoning0))"

text \<open>Line 116: the sum of base confidence and adjustment, clamped to 0 and 100.\<close>

definition clampScore :: "jsnum \<Rightarrow> jsnum \<Rightarrow> jsnum" where
  "clampScore baseConfidence confidenceAdjustment =
     Math_max (Fin 0) (Math_min (Fin 100) (js_add baseConfidence confidenceAdjustment))"

text \<open>Lines 119 to 130: the forced skip below 45, and the result.\<close>

definition finish ::
  "js_format \<Rightarrow> jsnum \<Rightarrow> jsnum list \<Rightarrow> recommendation \<Rightarrow> jsnum \<Rightarrow> jsnum \<times> string \<Rightarrow> AnalysisResult" where
  "finish fmt ra l5 r baseConfidence st =
     (case st of (confidenceAdjustment, reasoning0) \<Rightarrow>
        let score = clampScore baseConfidence confidenceAdjustment;
            forced = (js_lt score (Fin 45) \<and> r \<noteq> skip);
            r' = (if forced then skip else r);
            reasoning' = (if forced then reasoning0 @ ''Low confidence - recommend skipping this pick.''
                          else reasoning0)
        in \<lparr>recommendation = r',
            confidenceScore = Math_round score,
            reasoning = trim reasoning',
            recentAverageText = Some (toFixed1 fmt ra),
            gamesAnalyzed = length l5\<rparr>)"

text \<open>The body of \<^verbatim>\<open>analyzeProjection\<close> after the constants (lines 62 to 130).\<close>

definition analyzeLocals ::
  "js_format \<Rightarrow> jsnum \<Rightarrow> jsnum \<Rightarrow> jsnum list \<Rightarrow> consistency \<Rightarrow> trend \<Rightarrow> locals \<Rightarrow> AnalysisResult" where
  "analyzeLocals fmt ls ra l5 c t L =
     (case signal fmt ls ra l5 L of (r, baseConfidence, reasoning0) \<Rightarrow>
        finish fmt ra l5 r baseConfidence (trendStep t r (consistencyStep c reasoning0)))"

definition insufficient :: AnalysisResult where
  "insufficient =
     \<lparr>recommendation = skip,
      confidenceScore = Fin 0,
      reasoning = ''Insufficient data available for analysis'',
      recentAverageText = None,
      gamesAnalyzed = 0\<rparr>"

definition analyzeProjection :: "js_format \<Rightarrow> jsnum \<Rightarrow> PlayerStatsSummary \<Rightarrow> AnalysisResult" where
  "analyzeProjection fmt ls ps =
     (case recentAverage ps of
        None \<Rightarrow> insufficient
      | Some ra \<Rightarrow>
          if length (last5Games ps) = 0 then insufficient
          else analyzeLocals fmt ls ra (last5Games ps) (consistency ps) (trend ps)
                 (computeLocals ls ra (last5Games ps)))"

text \<open>The element type of the argument of \<^verbatim>\<open>batchAnalyze\<close>.\<close>

record projectionInput =
  lineScore :: jsnum
  playerStats :: PlayerStatsSummary

definition batchAnalyze :: "js_format \<Rightarrow> projectionInput list \<Rightarrow> AnalysisResult list" where
  "batchAnalyze fmt projections =
     map (\<lambda>p. analyzeProjection fmt (lineScore p) (playerStats p)) projections"


section \<open>The rules as the specification words them\<close>

text \<open>
  The specification describes the engine by rules on numbers. They are written here as
  it words them, with the comparisons of JavaScript, to be compared with the functions
  above.
\<close>

text \<open>The count of the entries that satisfy a condition.\<close>

fun spec_count :: "(jsnum \<Rightarrow> bool) \<Rightarrow> jsnum list \<Rightarrow> nat" where
  "spec_count P [] = 0"
| "spec_count P (v # vs) = (if P v then 1 else 0) + spec_count P vs"

text \<open>The direction rule: over if the difference is positive, else under.\<close>

definition spec_direction :: "jsnum \<Rightarrow> recommendation" where
  "spec_direction d = (if js_gt d (Fin 0) then over else under)"

text \<open>
  The base recommendation and base confidence: a list of rules in priority order, of
  which the first that matches wins, and skip with 30 when none does.
\<close>

definition spec_rules ::
  "jsnum \<Rightarrow> jsnum \<Rightarrow> jsnum \<Rightarrow> nat \<Rightarrow> nat \<Rightarrow> (bool \<times> recommendation \<times> int) list" where
  "spec_rules d pd hr go gu =
     [(js_gt (Math_abs pd) (Fin 15), spec_direction d, 70),
      (js_gt (Math_abs pd) (Fin 8), spec_direction d, 55),
      (js_ge hr (round64 (8 / 10)), if gu < go then over else under, 60)]"

definition spec_base :: "jsnum \<Rightarrow> jsnum \<Rightarrow> jsnum \<Rightarrow> nat \<Rightarrow> nat \<Rightarrow> recommendation \<times> int" where
  "spec_base d pd hr go gu =
     (case find fst (spec_rules d pd hr go gu) of
        Some rule \<Rightarrow> snd rule
      | None \<Rightarrow> (skip, 30))"

fun spec_consistencyAdjustment :: "consistency \<Rightarrow> int" where
  "spec_consistencyAdjustment high = 10"
| "spec_consistencyAdjustment low = - 15"
| "spec_consistencyAdjustment medium = 0"

definition spec_trendAdjustment :: "trend \<Rightarrow> recommendation \<Rightarrow> int" where
  "spec_trendAdjustment t r =
     (if (t = increasing \<and> r = over) \<or> (t = decreasing \<and> r = under) then 10
      else if (t = increasing \<and> r = under) \<or> (t = decreasing \<and> r = over) then - 10
      else 0)"

definition spec_clamp :: "int \<Rightarrow> int \<Rightarrow> int \<Rightarrow> int" where
  "spec_clamp x lo hi = max lo (min hi x)"

section \<open>Example inputs\<close>

text \<open>
  The number formatting of the runtime on the numbers that occur in the examples
  below; elsewhere it is left open, and the theorems hold for every formatting.
\<close>

definition exampleFormat :: js_format where
  "exampleFormat =
     \<lparr>toFixed1 = (\<lambda>x. case map_of [(Fin 21, ''21.0''), (Fin 22, ''22.0''), (Fin 25, ''25.0''),
                                    (Fin (8207810320882729 / 562949953421312), ''14.6''),
                                    (NaN, ''NaN'')] x of
                         Some s \<Rightarrow> s | None \<Rightarrow> ''?''),
      numToString = (\<lambda>x. case map_of [(Fin 0, ''0''), (Fin 1, ''1''), (Fin 5, ''5''),
                                       (Fin 20, ''20''), (Fin (27 / 2), ''13.5'')] x of
                            Some s \<Rightarrow> s | None \<Rightarrow> ''?'')\<rparr>"

definition exampleStats ::
  "jsnum option \<Rightarrow> jsnum list \<Rightarrow> jsnum list \<Rightarrow> consistency \<Rightarrow> trend \<Rightarrow> PlayerStatsSummary" where
  "exampleStats ra l5 l10 c t =
     \<lparr>playerName = ''Player'', sport = ''NBA'', statType = ''Points'',
      recentAverage = ra, last5Games = l5, last10Games = l10,
      consistency = c, trend = t\<rparr>"

section \<open>Auxiliary facts\<close>

subsection \<open>Rounding\<close>

lemma expo_numeral:
  "expo (numeral k) a =
     (if 2 \<le> a then expo (pred_numeral k) (a / 2) + 1
      else if a < 1 then expo (pred_numeral k) (a * 2) - 1
      else 0)"
  by (simp add: numeral_eq_Suc)

lemma exponent64_ordinary: "1 / 1024 \<le> a \<Longrightarrow> exponent64 a = expo 1100 a"
proof -
  assume a: "1 / 1024 \<le> a"
  have "pow2 (- 1022) \<le> 1 / 1024" by (simp add: pow2_def)
  then have "\<not> a < pow2 (- 1022)" using a by linarith
  then show ?thesis by (simp add: exponent64_def)
qed

lemma overflow_ordinary: "m < 1024 \<Longrightarrow> overflow positive m = Fin (if positive then m else - m)"
proof -
  assume m: "m < 1024"
  have "(1024::real) \<le> pow2 1024" by (simp add: pow2_def)
  then have "\<not> pow2 1024 \<le> m" using m by linarith
  then show ?thesis by (simp add: overflow_def)
qed

text \<open>Rounding unfolds on numerals only, so that nothing unfolds on a variable.\<close>

lemma round64_numeral:
  "round64 0 = Fin 0"
  "round64 1 = overflow True (nearest 1 (quantum 1))"
  "round64 (- 1) = overflow False (nearest 1 (quantum 1))"
  "round64 (numeral k) = overflow True (nearest (numeral k) (quantum (numeral k)))"
  "round64 (- numeral k) = overflow False (nearest (numeral k) (quantum (numeral k)))"
  "round64 (numeral k / numeral l) =
     overflow True (nearest (numeral k / numeral l) (quantum (numeral k / numeral l)))"
  "round64 (- (numeral k / numeral l)) =
     overflow False (nearest (numeral k / numeral l) (quantum (numeral k / numeral l)))"
  "round64 (1 / numeral l) = overflow True (nearest (1 / numeral l) (quantum (1 / numeral l)))"
  "round64 (- (1 / numeral l)) = overflow False (nearest (1 / numeral l) (quantum (1 / numeral l)))"
  by (simp_all add: round64_def)

lemmas round64_eval =
  round64_numeral nearest_def quantum_def roundHalfEven_def pow2_def expo_numeral
  exponent64_ordinary overflow_ordinary

lemma expo_upper: "a < 2 ^ Suc k \<Longrightarrow> expo n a \<le> int k"
proof (induction n arbitrary: a k)
  case 0
  then show ?case by simp
next
  case (Suc n)
  show ?case
  proof (cases "2 \<le> a")
    case True
    then obtain k' where k: "k = Suc k'"
      using Suc.prems by (cases k) auto
    have "a / 2 < 2 ^ Suc k'" using Suc.prems k by simp
    then have "expo n (a / 2) \<le> int k'" by (rule Suc.IH)
    then show ?thesis using True k by simp
  next
    case False
    show ?thesis
    proof (cases "a < 1")
      case True
      then have "a * 2 < 2 ^ Suc 0" by simp
      then have "expo n (a * 2) \<le> int 0" by (rule Suc.IH)
      then show ?thesis using True False by simp
    next
      case f: False
      then show ?thesis using False by simp
    qed
  qed
qed

lemma roundHalfEven_of_int: "roundHalfEven (of_int j) = j"
  by (simp add: roundHalfEven_def)

lemma roundHalfEven_le: "q \<le> of_int N \<Longrightarrow> roundHalfEven q \<le> N"
proof -
  assume q: "q \<le> of_int N"
  then have f: "\<lfloor>q\<rfloor> \<le> N" by (simp add: floor_le_iff)
  show ?thesis
  proof (cases "\<lfloor>q\<rfloor> = N")
    case True
    then have "q - of_int \<lfloor>q\<rfloor> \<le> 0" using q by simp
    then show ?thesis using True by (simp add: roundHalfEven_def)
  next
    case False
    then have "\<lfloor>q\<rfloor> + 1 \<le> N" using f by simp
    then show ?thesis using f by (simp add: roundHalfEven_def)
  qed
qed

lemma roundHalfEven_nonneg: "0 \<le> q \<Longrightarrow> 0 \<le> roundHalfEven q"
  by (simp add: roundHalfEven_def)

text \<open>The spacing is a negative power of two wherever the exponent is at most 52.\<close>

lemma quantum_inverse:
  assumes "exponent64 a \<le> 52"
  shows "quantum a = 1 / 2 ^ nat (52 - exponent64 a)"
proof (cases "exponent64 a = 52")
  case True
  then show ?thesis by (simp add: quantum_def pow2_def)
next
  case False
  then have "exponent64 a - 52 < 0" using assms by simp
  moreover have "- (exponent64 a - 52) = 52 - exponent64 a" by simp
  ultimately show ?thesis by (simp add: quantum_def pow2_def)
qed

text \<open>Small integers are binary64 values.\<close>

lemma round64_of_int:
  assumes "\<bar>k\<bar> \<le> 1000"
  shows "round64 (of_int k) = Fin (of_int k)"
proof (cases "k = 0")
  case True
  then show ?thesis by (simp add: round64_def)
next
  case False
  define a :: real where "a = of_int \<bar>k\<bar>"
  have a1: "1 \<le> a" using False by (simp add: a_def)
  have a2: "a < 2 ^ Suc 9" using assms by (simp add: a_def)
  have "1 / 1024 \<le> a" using a1 by simp
  then have "exponent64 a = expo 1100 a" by (rule exponent64_ordinary)
  then have e: "exponent64 a \<le> 9" using expo_upper [OF a2, of 1100] by simp
  define K where "K = nat (52 - exponent64 a)"
  have u: "quantum a = 1 / 2 ^ K"
    unfolding K_def using e by (intro quantum_inverse) simp
  have "a / quantum a = a * 2 ^ K"
    by (simp add: u)
  also have "\<dots> = of_int (\<bar>k\<bar> * 2 ^ K)"
    by (simp add: a_def)
  finally have "roundHalfEven (a / quantum a) = \<bar>k\<bar> * 2 ^ K"
    by (simp only: roundHalfEven_of_int)
  then have "nearest a (quantum a) = of_int (\<bar>k\<bar> * 2 ^ K) * (1 / 2 ^ K)"
    by (simp only: nearest_def u)
  also have "\<dots> = a"
    by (simp add: a_def)
  finally have n: "nearest a (quantum a) = a" .
  have "a < 1024" using a2 by simp
  then have "overflow (0 < k) a = Fin (if 0 < k then a else - a)"
    by (rule overflow_ordinary)
  moreover have "(if 0 < k then a else - a) = of_int k"
    using False by (simp add: a_def)
  moreover have "\<bar>real_of_int k\<bar> = a" by (simp add: a_def)
  ultimately show ?thesis
    using False by (simp add: round64_def n)
qed

text \<open>No real up to one half rounds above one half.\<close>

lemma round64_le_half:
  assumes "0 \<le> x" and "x \<le> 1 / 2"
  shows "\<exists>y. round64 x = Fin y \<and> y \<le> 1 / 2"
proof (cases "x = 0")
  case True
  then show ?thesis by (simp add: round64_def)
next
  case False
  then have pos: "0 < x" using assms(1) by simp
  have e: "exponent64 x \<le> - 1"
  proof (cases "x < pow2 (- 1022)")
    case True
    then show ?thesis by (simp add: exponent64_def)
  next
    case f: False
    have "x * 2 < 2 ^ Suc 0" using assms(2) by simp
    then have "expo 1099 (x * 2) \<le> int 0" by (rule expo_upper)
    moreover have "expo 1100 x = expo 1099 (x * 2) - 1"
      using assms(2) by (simp add: expo_numeral)
    ultimately show ?thesis using f by (simp add: exponent64_def)
  qed
  define K where "K = nat (52 - exponent64 x)"
  have K: "0 < K" using e by (simp add: K_def)
  have u: "quantum x = 1 / 2 ^ K"
    unfolding K_def using e by (intro quantum_inverse) simp
  obtain K' where K': "K = Suc K'" using K by (cases K) auto
  have "x / quantum x \<le> of_int (2 ^ K')"
    using assms(2) by (simp add: u K')
  then have le: "roundHalfEven (x / quantum x) \<le> 2 ^ K'"
    by (rule roundHalfEven_le)
  have "0 \<le> x / quantum x" using pos by (simp add: u)
  then have ge: "0 \<le> roundHalfEven (x / quantum x)"
    by (rule roundHalfEven_nonneg)
  have "real_of_int (roundHalfEven (x / quantum x)) \<le> 2 ^ K'"
    using le by (metis of_int_le_iff of_int_numeral of_int_power)
  then have m: "nearest x (quantum x) \<le> 1 / 2"
    by (simp add: nearest_def u K' field_simps)
  then have "nearest x (quantum x) < 1024" by simp
  then have "overflow (0 < x) (nearest x (quantum x)) = Fin (nearest x (quantum x))"
    using pos by (simp add: overflow_ordinary)
  then show ?thesis
    using pos m by (simp add: round64_def)
qed

lemma round64_literal: "round64 (8 / 10) = Fin (3602879701896397 / 4503599627370496)"
  by (simp add: round64_eval)

lemma js_add_int:
  "\<bar>a + b\<bar> \<le> 1000 \<Longrightarrow> js_add (Fin (of_int a)) (Fin (of_int b)) = Fin (of_int (a + b))"
  using round64_of_int [of "a + b"] by simp

subsection \<open>The engine\<close>

lemmas example_eval =
  analyzeProjection_def analyzeLocals_def computeLocals_def signal_def finish_def
  trendStep_def consistencyStep_def clampScore_def exampleStats_def exampleFormat_def
  js_gt_def js_ge_def js_sub_def js_of_nat_def Math_max_def Math_min_def trim_def
  is_space_def Let_def round64_eval

lemma spec_count_filter: "spec_count P vs = length (filter P vs)"
  by (induction vs) simp_all

lemma signal_rec:
  "fst (signal fmt ls ra l5 L) =
     fst (spec_base (difference L) (percentDifference L) (hitRate L) (gamesOver L) (gamesUnder L))"
  by (simp add: signal_def spec_base_def spec_rules_def spec_direction_def Let_def)

lemma signal_conf:
  "fst (snd (signal fmt ls ra l5 L)) =
     Fin (of_int (snd (spec_base (difference L) (percentDifference L) (hitRate L)
                                 (gamesOver L) (gamesUnder L))))"
  by (simp add: signal_def spec_base_def spec_rules_def spec_direction_def Let_def)

lemma spec_base_range: "snd (spec_base d pd hr go gu) \<in> {70, 55, 60, 30}"
  by (simp add: spec_base_def spec_rules_def)

lemma spec_consistency_range: "spec_consistencyAdjustment c \<in> {10, - 15, 0}"
  by (cases c) simp_all

lemma spec_trend_range: "spec_trendAdjustment t r \<in> {10, - 10, 0}"
  by (simp add: spec_trendAdjustment_def)

lemma spec_base_skip: "fst (spec_base d pd hr go gu) = skip \<Longrightarrow> snd (spec_base d pd hr go gu) = 30"
  by (simp add: spec_base_def spec_rules_def spec_direction_def split: if_splits)

lemma consistencyStep_adj:
  "fst (consistencyStep c msg) = Fin (of_int (spec_consistencyAdjustment c))"
  by (cases c) (simp_all add: consistencyStep_def)

lemma trendStep_adj:
  assumes "\<bar>a\<bar> \<le> 100"
  shows "fst (trendStep t r (Fin (of_int a), msg)) = Fin (of_int (a + spec_trendAdjustment t r))"
proof -
  have up: "round64 (real_of_int a + 10) = Fin (real_of_int a + 10)"
    using assms round64_of_int [of "a + 10"] by simp
  have down: "round64 (real_of_int a - 10) = Fin (real_of_int a - 10)"
    using assms round64_of_int [of "a - 10"] by simp
  show ?thesis
    by (cases t; cases r)
       (simp_all add: trendStep_def spec_trendAdjustment_def js_sub_def up down)
qed

lemma adjust_int:
  "fst (trendStep t r (consistencyStep c msg)) =
     Fin (of_int (spec_consistencyAdjustment c + spec_trendAdjustment t r))"
proof -
  have "consistencyStep c msg = (Fin (of_int (spec_consistencyAdjustment c)), snd (consistencyStep c msg))"
    using consistencyStep_adj [of c msg] by (simp add: prod_eq_iff)
  moreover have "\<bar>spec_consistencyAdjustment c\<bar> \<le> 100"
    by (cases c) simp_all
  ultimately show ?thesis
    using trendStep_adj by metis
qed

lemma clampScore_int:
  assumes "\<bar>b + a\<bar> \<le> 1000"
  shows "clampScore (Fin (of_int b)) (Fin (of_int a)) = Fin (of_int (spec_clamp (b + a) 0 100))"
  unfolding clampScore_def js_add_int [OF assms]
  by (simp add: spec_clamp_def Math_max_def Math_min_def max_def min_def)

lemma finish_confidence:
  "confidenceScore (finish fmt ra l5 r b st) = Math_round (clampScore b (fst st))"
  by (cases st) (simp add: finish_def Let_def)

lemma finish_recommendation:
  "recommendation (finish fmt ra l5 r b st) =
     (if js_lt (clampScore b (fst st)) (Fin 45) \<and> r \<noteq> skip then skip else r)"
  by (cases st) (simp add: finish_def Let_def)

lemma analyzeLocals_unfold:
  "analyzeLocals fmt ls ra l5 c t L =
     finish fmt ra l5 (fst (signal fmt ls ra l5 L)) (fst (snd (signal fmt ls ra l5 L)))
       (trendStep t (fst (signal fmt ls ra l5 L))
          (consistencyStep c (snd (snd (signal fmt ls ra l5 L)))))"
  by (simp add: analyzeLocals_def split: prod.splits)

lemma analyzeProjection_guarded:
  "recentAverage ps = Some ra \<Longrightarrow> last5Games ps \<noteq> [] \<Longrightarrow>
   analyzeProjection fmt ls ps =
     analyzeLocals fmt ls ra (last5Games ps) (consistency ps) (trend ps)
       (computeLocals ls ra (last5Games ps))"
  by (simp add: analyzeProjection_def)

lemma analyzeLocals_score:
  "clampScore (fst (snd (signal fmt ls ra l5 L)))
      (fst (trendStep t (fst (signal fmt ls ra l5 L))
              (consistencyStep c (snd (snd (signal fmt ls ra l5 L)))))) =
   Fin (of_int (spec_clamp
     (snd (spec_base (difference L) (percentDifference L) (hitRate L) (gamesOver L) (gamesUnder L))
      + (spec_consistencyAdjustment c
         + spec_trendAdjustment t
             (fst (spec_base (difference L) (percentDifference L) (hitRate L)
                             (gamesOver L) (gamesUnder L))))) 0 100))"
proof -
  let ?B = "spec_base (difference L) (percentDifference L) (hitRate L) (gamesOver L) (gamesUnder L)"
  have "\<bar>snd ?B + (spec_consistencyAdjustment c + spec_trendAdjustment t (fst ?B))\<bar> \<le> 1000"
    using spec_base_range [of "difference L" "percentDifference L" "hitRate L" "gamesOver L" "gamesUnder L"]
      spec_consistency_range [of c] spec_trend_range [of t "fst ?B"]
    by auto
  then show ?thesis
    by (simp only: signal_conf adjust_int signal_rec clampScore_int)
qed

lemma analyzeLocals_confidence:
  "confidenceScore (analyzeLocals fmt ls ra l5 c t L) =
   Fin (of_int (spec_clamp
     (snd (spec_base (difference L) (percentDifference L) (hitRate L) (gamesOver L) (gamesUnder L))
      + (spec_consistencyAdjustment c
         + spec_trendAdjustment t
             (fst (spec_base (difference L) (percentDifference L) (hitRate L)
                             (gamesOver L) (gamesUnder L))))) 0 100))"
  by (simp only: analyzeLocals_unfold finish_confidence analyzeLocals_score Math_round.simps)
     simp

lemma spec_clamp_range: "0 \<le> spec_clamp x 0 100 \<and> spec_clamp x 0 100 \<le> 100"
  by (simp add: spec_clamp_def)

lemma js_lt_asym: "js_lt a b \<Longrightarrow> \<not> js_lt b a"
  by (cases a; cases b) simp_all

lemma filter_disjoint_length:
  "(\<And>x. P x \<Longrightarrow> \<not> Q x) \<Longrightarrow> length (filter P xs) + length (filter Q xs) \<le> length xs"
  by (induction xs) auto

lemma games_le_length:
  "gamesOver (computeLocals ls ra l5) + gamesUnder (computeLocals ls ra l5) \<le> length l5"
  by (simp add: computeLocals_def Let_def js_gt_def filter_disjoint_length js_lt_asym)

section \<open>The insufficient-data guard\<close>

text \<open>
  C1. When \<^verbatim>\<open>recentAverage\<close> is null or \<^verbatim>\<open>last5Games\<close> is empty, the result is
  exactly the skip record with score 0, the fixed reasoning, a null average and
  \<^verbatim>\<open>gamesAnalyzed\<close> 0, also when \<^verbatim>\<open>last5Games\<close> is non-empty and only the average
  is null.
\<close>

theorem guard_insufficient:
  assumes "recentAverage ps = None \<or> last5Games ps = []"
  shows "analyzeProjection fmt ls ps =
           \<lparr>recommendation = skip,
            confidenceScore = Fin 0,
            reasoning = ''Insufficient data available for analysis'',
            recentAverageText = None,
            gamesAnalyzed = 0\<rparr>"
  using assms by (auto simp: analyzeProjection_def insufficient_def split: option.splits)

text \<open>An input with two games and a null average: \<^verbatim>\<open>gamesAnalyzed\<close> is 0 all the same.\<close>

theorem guard_insufficient_witness:
  "(recentAverage (exampleStats None [Fin 19, Fin 22] [] high stable) = None
      \<or> last5Games (exampleStats None [Fin 19, Fin 22] [] high stable) = [])
   \<and> last5Games (exampleStats None [Fin 19, Fin 22] [] high stable) \<noteq> []
   \<and> analyzeProjection exampleFormat (Fin 20) (exampleStats None [Fin 19, Fin 22] [] high stable) =
       \<lparr>recommendation = skip,
        confidenceScore = Fin 0,
        reasoning = ''Insufficient data available for analysis'',
        recentAverageText = None,
        gamesAnalyzed = 0\<rparr>"
  using guard_insufficient [where ps = "exampleStats None [Fin 19, Fin 22] [] high stable"
      and fmt = exampleFormat and ls = "Fin 20"]
  by (simp add: exampleStats_def)

section \<open>The confidence score\<close>

text \<open>
  C2. For every input, the \<^verbatim>\<open>confidenceScore\<close> of the result is an integer between 0
  and 100, both included.
\<close>

theorem confidence_in_range:
  "\<exists>k. confidenceScore (analyzeProjection fmt ls ps) = Fin (of_int k) \<and> 0 \<le> k \<and> k \<le> 100"
proof (cases "recentAverage ps")
  case None
  then have "confidenceScore (analyzeProjection fmt ls ps) = Fin (of_int 0)"
    by (simp add: analyzeProjection_def insufficient_def)
  then show ?thesis by force
next
  case (Some ra)
  show ?thesis
  proof (cases "last5Games ps = []")
    case True
    then have "confidenceScore (analyzeProjection fmt ls ps) = Fin (of_int 0)"
      by (simp add: analyzeProjection_def insufficient_def Some)
    then show ?thesis by force
  next
    case False
    show ?thesis
      unfolding analyzeProjection_guarded [OF Some False] analyzeLocals_confidence
      using spec_clamp_range by blast
  qed
qed

section \<open>The base recommendation\<close>

text \<open>
  C3. For an input that passes the guard, with the difference, the percent difference,
  the two counts and the hit rate as the specification defines them, in the arithmetic
  of JavaScript (an entry equal to the line changes neither count), the base
  recommendation and base confidence are those of the first matching rule in the
  priority order: more than 15 percent, more than 8 percent, a hit rate of at least
  0.8, and skip with 30 otherwise. The result of \<^verbatim>\<open>analyzeProjection\<close> is then
  computed from these.
\<close>

theorem base_signal_priority:
  assumes "recentAverage ps = Some ra" and "last5Games ps \<noteq> []"
  shows "let l5 = last5Games ps;
             d = js_sub ra ls;
             pd = js_mul (js_div d ls) (Fin 100);
             go = spec_count (\<lambda>v. js_gt v ls) l5;
             gu = spec_count (\<lambda>v. js_lt v ls) l5;
             hr = js_div (js_of_nat (max go gu)) (js_of_nat (length l5));
             L = computeLocals ls ra l5
         in difference L = d \<and> percentDifference L = pd
            \<and> gamesOver L = go \<and> gamesUnder L = gu \<and> hitRate L = hr
            \<and> gamesOver (computeLocals ls ra (ls # l5)) = go
            \<and> gamesUnder (computeLocals ls ra (ls # l5)) = gu
            \<and> fst (signal fmt ls ra l5 L) = fst (spec_base d pd hr go gu)
            \<and> fst (snd (signal fmt ls ra l5 L)) = Fin (of_int (snd (spec_base d pd hr go gu)))
            \<and> analyzeProjection fmt ls ps = analyzeLocals fmt ls ra l5 (consistency ps) (trend ps) L"
proof -
  have irrefl: "\<not> js_lt ls ls" by (cases ls) simp_all
  have loc: "difference (computeLocals ls ra l5) = js_sub ra ls"
    "percentDifference (computeLocals ls ra l5) = js_mul (js_div (js_sub ra ls) ls) (Fin 100)"
    "gamesOver (computeLocals ls ra l5) = spec_count (\<lambda>v. js_gt v ls) l5"
    "gamesUnder (computeLocals ls ra l5) = spec_count (\<lambda>v. js_lt v ls) l5"
    "hitRate (computeLocals ls ra l5) =
       js_div (js_of_nat (max (spec_count (\<lambda>v. js_gt v ls) l5) (spec_count (\<lambda>v. js_lt v ls) l5)))
              (js_of_nat (length l5))" for l5
    by (simp_all add: computeLocals_def Let_def spec_count_filter)
  have eq: "spec_count (\<lambda>v. js_gt v ls) (ls # l5) = spec_count (\<lambda>v. js_gt v ls) l5"
    "spec_count (\<lambda>v. js_lt v ls) (ls # l5) = spec_count (\<lambda>v. js_lt v ls) l5" for l5
    using irrefl by (simp_all add: js_gt_def)
  show ?thesis
    unfolding Let_def
    using signal_rec [of fmt ls ra "last5Games ps" "computeLocals ls ra (last5Games ps)"]
      signal_conf [of fmt ls ra "last5Games ps" "computeLocals ls ra (last5Games ps)"]
      analyzeProjection_guarded [OF assms, of fmt ls]
    by (simp add: loc eq irrefl js_gt_def)
qed

text \<open>
  Example 2 of the specification: a line of 20 and an average of 21 give 5 percent,
  two games over, one under, a hit rate of 0.4 (as a binary64 value), and so skip with
  base confidence 30. And an input at a threshold: a line of 13.5 and an average of
  14.58 (as a binary64 value) give a percent difference of exactly 8 after rounding,
  which is not more than 8, so that five games under the line decide: under with base
  confidence 60.
\<close>

theorem base_signal_priority_witness:
  "recentAverage (exampleStats (Some (Fin 21)) [Fin 19, Fin 20, Fin 21, Fin 22, Fin 20] [] medium stable)
     = Some (Fin 21)
   \<and> last5Games (exampleStats (Some (Fin 21)) [Fin 19, Fin 20, Fin 21, Fin 22, Fin 20] [] medium stable) \<noteq> []
   \<and> percentDifference (computeLocals (Fin 20) (Fin 21) [Fin 19, Fin 20, Fin 21, Fin 22, Fin 20]) = Fin 5
   \<and> gamesOver (computeLocals (Fin 20) (Fin 21) [Fin 19, Fin 20, Fin 21, Fin 22, Fin 20]) = 2
   \<and> gamesUnder (computeLocals (Fin 20) (Fin 21) [Fin 19, Fin 20, Fin 21, Fin 22, Fin 20]) = 1
   \<and> hitRate (computeLocals (Fin 20) (Fin 21) [Fin 19, Fin 20, Fin 21, Fin 22, Fin 20])
       = Fin (3602879701896397 / 9007199254740992)
   \<and> fst (signal exampleFormat (Fin 20) (Fin 21) [Fin 19, Fin 20, Fin 21, Fin 22, Fin 20]
            (computeLocals (Fin 20) (Fin 21) [Fin 19, Fin 20, Fin 21, Fin 22, Fin 20])) = skip
   \<and> fst (snd (signal exampleFormat (Fin 20) (Fin 21) [Fin 19, Fin 20, Fin 21, Fin 22, Fin 20]
            (computeLocals (Fin 20) (Fin 21) [Fin 19, Fin 20, Fin 21, Fin 22, Fin 20]))) = Fin 30
   \<and> round64 (1458 / 100) = Fin (8207810320882729 / 562949953421312)
   \<and> is_double (Fin (27 / 2))
   \<and> percentDifference (computeLocals (Fin (27 / 2)) (Fin (8207810320882729 / 562949953421312))
          [Fin 13, Fin 13, Fin 13, Fin 13, Fin 13]) = Fin 8
   \<and> hitRate (computeLocals (Fin (27 / 2)) (Fin (8207810320882729 / 562949953421312))
          [Fin 13, Fin 13, Fin 13, Fin 13, Fin 13]) = Fin 1
   \<and> fst (signal exampleFormat (Fin (27 / 2)) (Fin (8207810320882729 / 562949953421312))
          [Fin 13, Fin 13, Fin 13, Fin 13, Fin 13]
          (computeLocals (Fin (27 / 2)) (Fin (8207810320882729 / 562949953421312))
             [Fin 13, Fin 13, Fin 13, Fin 13, Fin 13])) = under
   \<and> fst (snd (signal exampleFormat (Fin (27 / 2)) (Fin (8207810320882729 / 562949953421312))
          [Fin 13, Fin 13, Fin 13, Fin 13, Fin 13]
          (computeLocals (Fin (27 / 2)) (Fin (8207810320882729 / 562949953421312))
             [Fin 13, Fin 13, Fin 13, Fin 13, Fin 13]))) = Fin 60"
proof -
  have lit: "round64 (1458 / 100) = Fin (8207810320882729 / 562949953421312)"
    and dbl: "is_double (Fin (27 / 2))"
    by (simp_all add: round64_eval)
  show ?thesis
    using base_signal_priority [where ps = "exampleStats (Some (Fin 21)) [Fin 19, Fin 20, Fin 21, Fin 22, Fin 20] [] medium stable"
        and ra = "Fin 21" and fmt = exampleFormat and ls = "Fin 20"]
      base_signal_priority [where ps = "exampleStats (Some (Fin (8207810320882729 / 562949953421312)))
          [Fin 13, Fin 13, Fin 13, Fin 13, Fin 13] [] medium stable"
        and ra = "Fin (8207810320882729 / 562949953421312)" and fmt = exampleFormat
        and ls = "Fin (27 / 2)"]
    unfolding lit
    by (simp add: dbl exampleStats_def Let_def spec_base_def spec_rules_def spec_direction_def
          js_gt_def js_ge_def js_sub_def js_of_nat_def round64_eval)
qed

text \<open>
  C4. For an input that passes the guard, the final confidence is the sum of the base
  confidence, the consistency adjustment (10 for high, minus 15 for low, 0 for medium)
  and the trend adjustment (10 when the trend agrees with an over or under
  recommendation, minus 10 when it opposes it, 0 otherwise), clamped to 0 and 100.
  When the base recommendation is skip, the consistency adjustment still applies and
  the trend adjustment is 0.
\<close>

theorem final_confidence:
  assumes "recentAverage ps = Some ra" and "last5Games ps \<noteq> []"
  shows "let L = computeLocals ls ra (last5Games ps);
             r = fst (signal fmt ls ra (last5Games ps) L);
             msg = snd (snd (signal fmt ls ra (last5Games ps) L));
             ca = spec_consistencyAdjustment (consistency ps);
             ta = spec_trendAdjustment (trend ps) r;
             res = analyzeProjection fmt ls ps
         in \<exists>b. fst (snd (signal fmt ls ra (last5Games ps) L)) = Fin (of_int b)
              \<and> fst (consistencyStep (consistency ps) msg) = Fin (of_int ca)
              \<and> fst (trendStep (trend ps) r (consistencyStep (consistency ps) msg)) = Fin (of_int (ca + ta))
              \<and> confidenceScore res = Fin (of_int (spec_clamp (b + ca + ta) 0 100))
              \<and> (r = skip \<longrightarrow> ta = 0 \<and> confidenceScore res = Fin (of_int (spec_clamp (30 + ca) 0 100)))"
proof -
  define L where "L = computeLocals ls ra (last5Games ps)"
  define B where "B = spec_base (difference L) (percentDifference L) (hitRate L) (gamesOver L) (gamesUnder L)"
  have r: "fst (signal fmt ls ra (last5Games ps) L) = fst B"
    unfolding B_def by (rule signal_rec)
  have b: "fst (snd (signal fmt ls ra (last5Games ps) L)) = Fin (of_int (snd B))"
    unfolding B_def by (rule signal_conf)
  have c: "confidenceScore (analyzeProjection fmt ls ps) =
      Fin (of_int (spec_clamp (snd B + (spec_consistencyAdjustment (consistency ps)
                                        + spec_trendAdjustment (trend ps) (fst B))) 0 100))"
    unfolding analyzeProjection_guarded [OF assms] B_def L_def by (rule analyzeLocals_confidence)
  have s: "fst B = skip \<Longrightarrow> snd B = 30"
    unfolding B_def by (rule spec_base_skip)
  have t: "spec_trendAdjustment (trend ps) skip = 0"
    by (simp add: spec_trendAdjustment_def)
  show ?thesis
    unfolding Let_def L_def [symmetric]
    apply (rule exI [of _ "snd B"])
    using s t by (simp add: r b c consistencyStep_adj adjust_int add.assoc)
qed

text \<open>
  A skip signal with low consistency and an increasing trend: 30 minus 15, and nothing
  for the trend.
\<close>

theorem final_confidence_witness:
  "recentAverage (exampleStats (Some (Fin 21)) [Fin 19, Fin 20, Fin 21, Fin 22, Fin 20] [] low increasing)
     = Some (Fin 21)
   \<and> last5Games (exampleStats (Some (Fin 21)) [Fin 19, Fin 20, Fin 21, Fin 22, Fin 20] [] low increasing) \<noteq> []
   \<and> fst (signal exampleFormat (Fin 20) (Fin 21) [Fin 19, Fin 20, Fin 21, Fin 22, Fin 20]
            (computeLocals (Fin 20) (Fin 21) [Fin 19, Fin 20, Fin 21, Fin 22, Fin 20])) = skip
   \<and> confidenceScore (analyzeProjection exampleFormat (Fin 20)
        (exampleStats (Some (Fin 21)) [Fin 19, Fin 20, Fin 21, Fin 22, Fin 20] [] low increasing)) = Fin 15"
  using final_confidence [where ps = "exampleStats (Some (Fin 21)) [Fin 19, Fin 20, Fin 21, Fin 22, Fin 20] [] low increasing"
      and ra = "Fin 21" and fmt = exampleFormat and ls = "Fin 20"]
  by (simp add: exampleStats_def Let_def computeLocals_def signal_def spec_clamp_def
        js_gt_def js_ge_def js_sub_def js_of_nat_def round64_eval)

section \<open>The forced skip\<close>

text \<open>
  C5. When the clamped score is below 45 and the recommendation at that point is not
  skip, the result recommends skip and its \<^verbatim>\<open>confidenceScore\<close> is the clamped
  score, not reset.
\<close>

theorem forced_skip_keeps_score:
  assumes "recentAverage ps = Some ra" and "last5Games ps \<noteq> []"
    and "L = computeLocals ls ra (last5Games ps)"
    and "r = fst (signal fmt ls ra (last5Games ps) L)"
    and "score = clampScore (fst (snd (signal fmt ls ra (last5Games ps) L)))
                   (fst (trendStep (trend ps) r
                           (consistencyStep (consistency ps)
                              (snd (snd (signal fmt ls ra (last5Games ps) L))))))"
    and "js_lt score (Fin 45)" and "r \<noteq> skip"
  shows "recommendation (analyzeProjection fmt ls ps) = skip
         \<and> confidenceScore (analyzeProjection fmt ls ps) = score"
proof -
  have int: "\<exists>k. score = Fin (of_int k)"
    unfolding assms(3-5) analyzeLocals_score by blast
  have res: "analyzeProjection fmt ls ps =
      analyzeLocals fmt ls ra (last5Games ps) (consistency ps) (trend ps) L"
    unfolding assms(3) by (rule analyzeProjection_guarded [OF assms(1,2)])
  have "recommendation (analyzeProjection fmt ls ps) = skip"
    unfolding res analyzeLocals_unfold finish_recommendation
    using assms(4-7) by simp
  moreover have "confidenceScore (analyzeProjection fmt ls ps) = Math_round score"
    unfolding res analyzeLocals_unfold finish_confidence
    using assms(4,5) by simp
  ultimately show ?thesis
    using int by auto
qed

text \<open>
  Example 4 of the specification: 10 percent above the line, low consistency and a
  decreasing trend give 55 minus 15 minus 10, so skip with a score of 30; the
  cautionary clause and the low-confidence clause end the reasoning, in that order.
\<close>

theorem forced_skip_keeps_score_witness:
  "recentAverage (exampleStats (Some (Fin 22)) [Fin 19, Fin 20, Fin 21, Fin 22, Fin 20] [] low decreasing)
     = Some (Fin 22)
   \<and> percentDifference (computeLocals (Fin 20) (Fin 22) [Fin 19, Fin 20, Fin 21, Fin 22, Fin 20]) = Fin 10
   \<and> signal exampleFormat (Fin 20) (Fin 22) [Fin 19, Fin 20, Fin 21, Fin 22, Fin 20]
        (computeLocals (Fin 20) (Fin 22) [Fin 19, Fin 20, Fin 21, Fin 22, Fin 20]) =
       (over, Fin 55, ''Player's recent average (22.0) is moderately above the line (20). '')
   \<and> js_lt (Fin 30) (Fin 45)
   \<and> recommendation (analyzeProjection exampleFormat (Fin 20)
        (exampleStats (Some (Fin 22)) [Fin 19, Fin 20, Fin 21, Fin 22, Fin 20] [] low decreasing)) = skip
   \<and> confidenceScore (analyzeProjection exampleFormat (Fin 20)
        (exampleStats (Some (Fin 22)) [Fin 19, Fin 20, Fin 21, Fin 22, Fin 20] [] low decreasing)) = Fin 30
   \<and> reasoning (analyzeProjection exampleFormat (Fin 20)
        (exampleStats (Some (Fin 22)) [Fin 19, Fin 20, Fin 21, Fin 22, Fin 20] [] low decreasing)) =
       ''Player's recent average (22.0) is moderately above the line (20). Player shows high variance in performance. Caution: Player is trending downward. Low confidence - recommend skipping this pick.''"
proof -
  let ?l5 = "[Fin 19, Fin 20, Fin 21, Fin 22, Fin 20]"
  let ?ps = "exampleStats (Some (Fin 22)) ?l5 [] low decreasing"
  let ?L = "computeLocals (Fin 20) (Fin 22) ?l5"
  have sig: "signal exampleFormat (Fin 20) (Fin 22) ?l5 ?L =
      (over, Fin 55, ''Player's recent average (22.0) is moderately above the line (20). '')"
    by (simp add: computeLocals_def signal_def exampleFormat_def Let_def js_gt_def js_sub_def
          round64_eval)
  have sc: "clampScore (Fin 55)
      (fst (trendStep decreasing over (consistencyStep low
         ''Player's recent average (22.0) is moderately above the line (20). ''))) = Fin 30"
    by (simp add: clampScore_def trendStep_def consistencyStep_def js_sub_def Math_max_def
          Math_min_def round64_eval)
  have pd: "percentDifference ?L = Fin 10"
    by (simp add: computeLocals_def Let_def js_sub_def round64_eval)
  show ?thesis
    using forced_skip_keeps_score [where ps = ?ps and ra = "Fin 22" and ls = "Fin 20"
        and fmt = exampleFormat and L = ?L and r = over and score = "Fin 30"]
    by (simp add: sig sc pd exampleStats_def) (simp add: example_eval)
qed

text \<open>
  C8. If the result recommends over or under, its \<^verbatim>\<open>confidenceScore\<close> is at least 45.
\<close>

theorem non_skip_confidence:
  assumes "recommendation (analyzeProjection fmt ls ps) = over
           \<or> recommendation (analyzeProjection fmt ls ps) = under"
  shows "\<exists>k. confidenceScore (analyzeProjection fmt ls ps) = Fin (of_int k) \<and> 45 \<le> k \<and> k \<le> 100"
proof -
  from assms have ns: "recommendation (analyzeProjection fmt ls ps) \<noteq> skip" by auto
  then obtain ra where ra: "recentAverage ps = Some ra" and l5: "last5Games ps \<noteq> []"
    by (cases "recentAverage ps"; cases "last5Games ps = []")
       (auto simp: analyzeProjection_def insufficient_def)
  let ?L = "computeLocals ls ra (last5Games ps)"
  let ?sig = "signal fmt ls ra (last5Games ps) ?L"
  let ?score = "clampScore (fst (snd ?sig))
                  (fst (trendStep (trend ps) (fst ?sig)
                          (consistencyStep (consistency ps) (snd (snd ?sig)))))"
  obtain k where k: "?score = Fin (of_int k)" and range: "0 \<le> k \<and> k \<le> 100"
    unfolding analyzeLocals_score using spec_clamp_range by blast
  have res: "analyzeProjection fmt ls ps =
      analyzeLocals fmt ls ra (last5Games ps) (consistency ps) (trend ps) ?L"
    by (rule analyzeProjection_guarded [OF ra l5])
  have "\<not> js_lt ?score (Fin 45)"
    using ns unfolding res analyzeLocals_unfold finish_recommendation
    by (auto split: if_splits)
  then have "45 \<le> k" using k by simp
  moreover have "confidenceScore (analyzeProjection fmt ls ps) = Fin (of_int k)"
    unfolding res analyzeLocals_unfold finish_confidence k by simp
  ultimately show ?thesis using range by blast
qed

text \<open>
  Example 1 of the specification: over with a score of 90.
\<close>

theorem non_skip_confidence_witness:
  "recommendation (analyzeProjection exampleFormat (Fin 20)
      (exampleStats (Some (Fin 25)) [Fin 24, Fin 26, Fin 25, Fin 27, Fin 23] [] high increasing)) = over
   \<and> confidenceScore (analyzeProjection exampleFormat (Fin 20)
      (exampleStats (Some (Fin 25)) [Fin 24, Fin 26, Fin 25, Fin 27, Fin 23] [] high increasing)) = Fin 90
   \<and> (\<exists>k. Fin 90 = Fin (of_int k) \<and> 45 \<le> k \<and> k \<le> 100)"
proof -
  let ?ps = "exampleStats (Some (Fin 25)) [Fin 24, Fin 26, Fin 25, Fin 27, Fin 23] [] high increasing"
  have ev: "analyzeProjection exampleFormat (Fin 20) ?ps =
      \<lparr>recommendation = over, confidenceScore = Fin 90,
       reasoning = ''Player's recent average (25.0) is 25.0% above the line (20). Player shows high consistency. Player is trending upward.'',
       recentAverageText = Some ''25.0'', gamesAnalyzed = 5\<rparr>"
    by (simp add: example_eval)
  show ?thesis
    using non_skip_confidence [where fmt = exampleFormat and ls = "Fin 20" and ps = ?ps]
    by (simp add: ev)
qed

section \<open>A line of zero\<close>

text \<open>
  C6 as stated fails when \<^verbatim>\<open>recentAverage\<close> is NaN, which is neither null nor equal
  to 0: with a line of 0 the percent difference is then NaN, not infinite, the first
  branch does not trigger, and the hit-rate branch gives over with base confidence 60.
\<close>

theorem zero_line_nan_counterexample:
  "recentAverage (exampleStats (Some NaN) [Fin 1] [] medium stable) \<noteq> None
   \<and> recentAverage (exampleStats (Some NaN) [Fin 1] [] medium stable) \<noteq> Some (Fin 0)
   \<and> last5Games (exampleStats (Some NaN) [Fin 1] [] medium stable) \<noteq> []
   \<and> is_double NaN
   \<and> percentDifference (computeLocals (Fin 0) NaN [Fin 1]) = NaN
   \<and> \<not> js_gt (Math_abs (percentDifference (computeLocals (Fin 0) NaN [Fin 1]))) (Fin 15)
   \<and> signal exampleFormat (Fin 0) NaN [Fin 1] (computeLocals (Fin 0) NaN [Fin 1]) =
       (over, Fin 60, ''Player has hit over in 1 of last 1 games. '')
   \<and> analyzeProjection exampleFormat (Fin 0) (exampleStats (Some NaN) [Fin 1] [] medium stable) =
       \<lparr>recommendation = over, confidenceScore = Fin 60,
        reasoning = ''Player has hit over in 1 of last 1 games.'',
        recentAverageText = Some ''NaN'', gamesAnalyzed = 1\<rparr>"
  by (simp add: example_eval)

text \<open>
  C6, amended. With a line of exactly 0, a \<^verbatim>\<open>recentAverage\<close> that is a number (a
  binary64 value) other than NaN and 0, and a non-empty \<^verbatim>\<open>last5Games\<close>, the percent
  difference is infinite and the first branch triggers: base confidence 70, over when
  the average is positive and under when it is negative, and \<^verbatim>\<open>analyzeProjection\<close>
  returns the result built from them.
\<close>

theorem zero_line_first_branch:
  assumes "recentAverage ps = Some ra" and "ra \<noteq> NaN" and "ra \<noteq> Fin 0"
    and "last5Games ps \<noteq> []" and "is_double ra"
  shows "let L = computeLocals (Fin 0) ra (last5Games ps);
             sig = signal fmt (Fin 0) ra (last5Games ps) L
         in (percentDifference L = PInf \<or> percentDifference L = NInf)
            \<and> js_gt (Math_abs (percentDifference L)) (Fin 15)
            \<and> fst (snd sig) = Fin 70
            \<and> (js_gt ra (Fin 0) \<or> js_lt ra (Fin 0))
            \<and> (js_gt ra (Fin 0) \<longrightarrow> fst sig = over)
            \<and> (js_lt ra (Fin 0) \<longrightarrow> fst sig = under)
            \<and> analyzeProjection fmt (Fin 0) ps =
                finish fmt ra (last5Games ps) (fst sig) (Fin 70)
                  (trendStep (trend ps) (fst sig) (consistencyStep (consistency ps) (snd (snd sig))))"
proof -
  have sub: "js_sub ra (Fin 0) = ra"
    using assms(5) by (cases ra) (simp_all add: js_sub_def)
  have d: "difference (computeLocals (Fin 0) ra l5) = ra" for l5
    by (simp add: computeLocals_def Let_def sub)
  have "percentDifference (computeLocals (Fin 0) ra l5) = js_mul (js_div ra (Fin 0)) (Fin 100)" for l5
    by (simp add: computeLocals_def Let_def sub)
  moreover have "js_mul (js_div ra (Fin 0)) (Fin 100) = (if js_lt ra (Fin 0) then NInf else PInf)"
    using assms(2,3) by (cases ra) simp_all
  ultimately have pd: "percentDifference (computeLocals (Fin 0) ra l5) =
      (if js_lt ra (Fin 0) then NInf else PInf)" for l5
    by simp
  have sgn: "js_gt ra (Fin 0) \<or> js_lt ra (Fin 0)"
    using assms(2,3) by (cases ra) (auto simp: js_gt_def)
  have asym: "js_lt ra (Fin 0) \<Longrightarrow> \<not> js_gt ra (Fin 0)"
    unfolding js_gt_def by (rule js_lt_asym)
  show ?thesis
    unfolding Let_def analyzeProjection_guarded [OF assms(1,4)] analyzeLocals_unfold
    using sgn asym by (auto simp: signal_def d pd js_gt_def)
qed

text \<open>
  A line of 0 and an average of 22.
\<close>

theorem zero_line_first_branch_witness:
  "recentAverage (exampleStats (Some (Fin 22)) [Fin 1] [] medium stable) = Some (Fin 22)
   \<and> Fin 22 \<noteq> NaN \<and> Fin 22 \<noteq> Fin 0 \<and> is_double (Fin 22)
   \<and> last5Games (exampleStats (Some (Fin 22)) [Fin 1] [] medium stable) \<noteq> []
   \<and> percentDifference (computeLocals (Fin 0) (Fin 22) [Fin 1]) = PInf
   \<and> fst (signal exampleFormat (Fin 0) (Fin 22) [Fin 1] (computeLocals (Fin 0) (Fin 22) [Fin 1])) = over
   \<and> fst (snd (signal exampleFormat (Fin 0) (Fin 22) [Fin 1] (computeLocals (Fin 0) (Fin 22) [Fin 1]))) = Fin 70"
  using zero_line_first_branch [where ps = "exampleStats (Some (Fin 22)) [Fin 1] [] medium stable"
      and ra = "Fin 22" and fmt = exampleFormat]
  by (simp add: exampleStats_def Let_def js_gt_def computeLocals_def js_sub_def round64_eval)

section \<open>The batch wrapper\<close>

text \<open>
  C7. \<^verbatim>\<open>batchAnalyze\<close> returns a list of the length of its argument, whose element
  at each index is \<^verbatim>\<open>analyzeProjection\<close> of the item at that index; replacing one
  item leaves the results at all other indices as they were.
\<close>

theorem batch_pointwise:
  "length (batchAnalyze fmt items) = length items
   \<and> (\<forall>i < length items.
        batchAnalyze fmt items ! i =
          analyzeProjection fmt (lineScore (items ! i)) (playerStats (items ! i)))
   \<and> (\<forall>i j x. i < length items \<and> j < length items \<and> i \<noteq> j \<longrightarrow>
        batchAnalyze fmt (items[i := x]) ! j = batchAnalyze fmt items ! j)"
  by (simp add: batchAnalyze_def)

text \<open>
  A batch of two items, and the same batch with its first item replaced.
\<close>

theorem batch_pointwise_witness:
  "length (batchAnalyze exampleFormat
      [\<lparr>lineScore = Fin 20, playerStats = exampleStats (Some (Fin 25)) [Fin 24, Fin 26, Fin 25, Fin 27, Fin 23] [] high increasing\<rparr>,
       \<lparr>lineScore = Fin 20, playerStats = exampleStats None [] [] low stable\<rparr>]) = 2
   \<and> batchAnalyze exampleFormat
      [\<lparr>lineScore = Fin 20, playerStats = exampleStats (Some (Fin 25)) [Fin 24, Fin 26, Fin 25, Fin 27, Fin 23] [] high increasing\<rparr>,
       \<lparr>lineScore = Fin 20, playerStats = exampleStats None [] [] low stable\<rparr>] ! 1 =
     analyzeProjection exampleFormat (Fin 20) (exampleStats None [] [] low stable)
   \<and> batchAnalyze exampleFormat
      [\<lparr>lineScore = Fin 0, playerStats = exampleStats (Some NaN) [Fin 1] [] medium stable\<rparr>,
       \<lparr>lineScore = Fin 20, playerStats = exampleStats None [] [] low stable\<rparr>] ! 1 =
     batchAnalyze exampleFormat
      [\<lparr>lineScore = Fin 20, playerStats = exampleStats (Some (Fin 25)) [Fin 24, Fin 26, Fin 25, Fin 27, Fin 23] [] high increasing\<rparr>,
       \<lparr>lineScore = Fin 20, playerStats = exampleStats None [] [] low stable\<rparr>] ! 1"
proof -
  let ?a = "\<lparr>lineScore = Fin 20, playerStats = exampleStats (Some (Fin 25)) [Fin 24, Fin 26, Fin 25, Fin 27, Fin 23] [] high increasing\<rparr>"
  let ?b = "\<lparr>lineScore = Fin 20, playerStats = exampleStats None [] [] low stable\<rparr>"
  let ?x = "\<lparr>lineScore = Fin 0, playerStats = exampleStats (Some NaN) [Fin 1] [] medium stable\<rparr>"
  have all: "length (batchAnalyze exampleFormat [?a, ?b]) = length [?a, ?b]
   \<and> (\<forall>i < length [?a, ?b].
        batchAnalyze exampleFormat [?a, ?b] ! i =
          analyzeProjection exampleFormat (lineScore ([?a, ?b] ! i)) (playerStats ([?a, ?b] ! i)))
   \<and> (\<forall>i j x. i < length [?a, ?b] \<and> j < length [?a, ?b] \<and> i \<noteq> j \<longrightarrow>
        batchAnalyze exampleFormat ([?a, ?b][i := x]) ! j = batchAnalyze exampleFormat [?a, ?b] ! j)"
    by (rule batch_pointwise)
  from all have len: "length (batchAnalyze exampleFormat [?a, ?b]) = 2" by simp
  from all have "(1::nat) < length [?a, ?b] \<longrightarrow> batchAnalyze exampleFormat [?a, ?b] ! 1 =
          analyzeProjection exampleFormat (lineScore ([?a, ?b] ! 1)) (playerStats ([?a, ?b] ! 1))"
    by blast
  then have pt: "batchAnalyze exampleFormat [?a, ?b] ! 1 =
      analyzeProjection exampleFormat (Fin 20) (exampleStats None [] [] low stable)"
    by simp
  from all have "(0::nat) < length [?a, ?b] \<and> (1::nat) < length [?a, ?b] \<and> (0::nat) \<noteq> 1 \<longrightarrow>
        batchAnalyze exampleFormat ([?a, ?b][0 := ?x]) ! 1 = batchAnalyze exampleFormat [?a, ?b] ! 1"
    by blast
  then have ind: "batchAnalyze exampleFormat [?x, ?b] ! 1 = batchAnalyze exampleFormat [?a, ?b] ! 1"
    by simp
  show ?thesis using len pt ind by simp
qed

section \<open>What the result does not depend on\<close>

text \<open>
  C9. Two statistics that agree on \<^verbatim>\<open>recentAverage\<close>, \<^verbatim>\<open>last5Games\<close>,
  \<^verbatim>\<open>consistency\<close> and \<^verbatim>\<open>trend\<close> give the same result for the same line,
  whatever their \<^verbatim>\<open>last10Games\<close>, \<^verbatim>\<open>playerName\<close>, \<^verbatim>\<open>sport\<close> and
  \<^verbatim>\<open>statType\<close>; and the result is the same whatever values the standard deviation
  and the coefficient of variation have.
\<close>

theorem output_independent:
  assumes "recentAverage ps = recentAverage ps'" and "last5Games ps = last5Games ps'"
    and "consistency ps = consistency ps'" and "trend ps = trend ps'"
  shows "analyzeProjection fmt ls ps = analyzeProjection fmt ls ps'
         \<and> analyzeLocals fmt ls ra l5 c t (L\<lparr>stdDev := sd, coefficientOfVariation := cv\<rparr>)
             = analyzeLocals fmt ls ra l5 c t L"
proof -
  have "analyzeProjection fmt ls ps = analyzeProjection fmt ls ps'"
    unfolding analyzeProjection_def assms by (rule refl)
  moreover have "analyzeLocals fmt ls ra l5 c t (L\<lparr>stdDev := sd, coefficientOfVariation := cv\<rparr>)
      = analyzeLocals fmt ls ra l5 c t L"
    by (simp add: analyzeLocals_def signal_def)
  ultimately show ?thesis by (rule conjI)
qed

text \<open>
  Two statistics that differ in name, sport, stat type and \<^verbatim>\<open>last10Games\<close>.
\<close>

theorem output_independent_witness:
  "analyzeProjection exampleFormat (Fin 20)
      (exampleStats (Some (Fin 25)) [Fin 24, Fin 26, Fin 25, Fin 27, Fin 23] [] high increasing)
   = analyzeProjection exampleFormat (Fin 20)
      \<lparr>playerName = ''Other'', sport = ''NFL'', statType = ''Yards'',
       recentAverage = Some (Fin 25), last5Games = [Fin 24, Fin 26, Fin 25, Fin 27, Fin 23],
       last10Games = [Fin 1, NaN, PInf], consistency = high, trend = increasing\<rparr>"
  using output_independent [where ps = "exampleStats (Some (Fin 25)) [Fin 24, Fin 26, Fin 25, Fin 27, Fin 23] [] high increasing"
      and ps' = "\<lparr>playerName = ''Other'', sport = ''NFL'', statType = ''Yards'',
       recentAverage = Some (Fin 25), last5Games = [Fin 24, Fin 26, Fin 25, Fin 27, Fin 23],
       last10Games = [Fin 1, NaN, PInf], consistency = high, trend = increasing\<rparr>"
      and fmt = exampleFormat and ls = "Fin 20"]
  by (simp add: exampleStats_def)

section \<open>The hit-rate branch\<close>

text \<open>
  C10. For a non-empty \<^verbatim>\<open>last5Games\<close>, a hit rate of at least 0.8 (the quotient
  and the literal as binary64 values) excludes a tie
  of the two counts; so in the hit-rate branch the recommendation is over with strictly
  more games over than under, or under with strictly more games under than over.
\<close>

theorem hit_rate_majority:
  assumes "l5 \<noteq> []" and "L = computeLocals ls ra l5"
    and "js_ge (js_div (js_of_nat (max (gamesOver L) (gamesUnder L))) (js_of_nat (length l5)))
               (round64 (8 / 10))"
  shows "gamesOver L \<noteq> gamesUnder L
         \<and> (\<not> js_gt (Math_abs (percentDifference L)) (Fin 15)
              \<and> \<not> js_gt (Math_abs (percentDifference L)) (Fin 8) \<longrightarrow>
            (fst (signal fmt ls ra l5 L) = over \<and> gamesUnder L < gamesOver L)
            \<or> (fst (signal fmt ls ra l5 L) = under \<and> gamesOver L < gamesUnder L))"
proof -
  have n: "0 < length l5" using assms(1) by simp
  have le: "gamesOver L + gamesUnder L \<le> length l5"
    unfolding assms(2) by (rule games_le_length)
  have hr: "hitRate L = js_div (js_of_nat (max (gamesOver L) (gamesUnder L))) (js_of_nat (length l5))"
    unfolding assms(2) by (simp add: computeLocals_def Let_def)
  have q: "js_div (js_of_nat (max (gamesOver L) (gamesUnder L))) (js_of_nat (length l5)) =
      round64 (real (max (gamesOver L) (gamesUnder L)) / real (length l5))"
    using n by (simp add: js_of_nat_def)
  have ne: "gamesOver L \<noteq> gamesUnder L"
  proof
    assume eq: "gamesOver L = gamesUnder L"
    with le have "2 * gamesOver L \<le> length l5" by simp
    then have "2 * real (gamesOver L) \<le> real (length l5)"
      by (metis of_nat_le_iff of_nat_mult of_nat_numeral)
    then have "real (max (gamesOver L) (gamesUnder L)) / real (length l5) \<le> 1 / 2"
      using eq n by (simp add: field_simps)
    moreover have "0 \<le> real (max (gamesOver L) (gamesUnder L)) / real (length l5)"
      by simp
    ultimately obtain y
      where y: "round64 (real (max (gamesOver L) (gamesUnder L)) / real (length l5)) = Fin y"
        and half: "y \<le> 1 / 2"
      using round64_le_half by blast
    from assms(3) have "js_ge (Fin y) (Fin (3602879701896397 / 4503599627370496))"
      by (simp only: q y round64_literal)
    then show False using half by (simp add: js_ge_def)
  qed
  show ?thesis
    using ne assms(3) by (auto simp: signal_def hr Let_def)
qed

text \<open>
  Four games of five over the line, one equal to it.
\<close>

theorem hit_rate_majority_witness:
  "[Fin 21, Fin 21, Fin 20, Fin 21, Fin 21] \<noteq> []
   \<and> js_ge (js_div (js_of_nat (max 4 0)) (js_of_nat 5)) (round64 (8 / 10))
   \<and> hitRate (computeLocals (Fin 20) (Fin 21) [Fin 21, Fin 21, Fin 20, Fin 21, Fin 21])
       = Fin (3602879701896397 / 4503599627370496)
   \<and> gamesOver (computeLocals (Fin 20) (Fin 21) [Fin 21, Fin 21, Fin 20, Fin 21, Fin 21]) = 4
   \<and> gamesUnder (computeLocals (Fin 20) (Fin 21) [Fin 21, Fin 21, Fin 20, Fin 21, Fin 21]) = 0
   \<and> \<not> js_gt (Math_abs (percentDifference (computeLocals (Fin 20) (Fin 21) [Fin 21, Fin 21, Fin 20, Fin 21, Fin 21]))) (Fin 8)
   \<and> fst (signal exampleFormat (Fin 20) (Fin 21) [Fin 21, Fin 21, Fin 20, Fin 21, Fin 21]
        (computeLocals (Fin 20) (Fin 21) [Fin 21, Fin 21, Fin 20, Fin 21, Fin 21])) = over"
proof -
  let ?l5 = "[Fin 21, Fin 21, Fin 20, Fin 21, Fin 21]"
  let ?L = "computeLocals (Fin 20) (Fin 21) ?l5"
  have go: "gamesOver ?L = 4" and gu: "gamesUnder ?L = 0"
    and pd: "percentDifference ?L = Fin 5"
    and hrv: "hitRate ?L = Fin (3602879701896397 / 4503599627370496)"
    by (simp_all add: computeLocals_def Let_def js_gt_def js_sub_def js_of_nat_def round64_eval)
  have hr: "js_ge (js_div (js_of_nat (max 4 0)) (js_of_nat 5)) (round64 (8 / 10))"
    by (simp add: js_ge_def js_of_nat_def round64_eval)
  have ne: "?l5 \<noteq> []" by simp
  have h: "js_ge (js_div (js_of_nat (max (gamesOver ?L) (gamesUnder ?L))) (js_of_nat (length ?l5)))
             (round64 (8 / 10))"
    by (simp add: go gu js_ge_def js_of_nat_def round64_eval)
  show ?thesis
    using hit_rate_majority [OF ne refl h, where fmt = exampleFormat] hr
    by (simp add: go gu pd hrv js_gt_def)
qed

end
